theory Spec2Isabelle
  imports Complex_Main
begin

section \<open>Configuration and theme schemas of elia\_chat\<close>

text \<open>
  The development embeds \<^verbatim>\<open>src/elia_chat/config.py\<close> and
  \<^verbatim>\<open>src/elia_chat/themes.py\<close>. Both files declare pydantic (version 2) models: a class
  with typed fields, defaults and validators, whose constructor either returns an instance or
  raises a \<^verbatim>\<open>ValidationError\<close> that lists every offending field. The constructor is
  modelled as a function into \<open>exc + instance\<close>.
\<close>

subsection \<open>Exceptions\<close>

text \<open>
  One entry of a pydantic \<^verbatim>\<open>ValidationError\<close>: the field is missing, its value does not have
  the declared type, or a field validator raised \<^verbatim>\<open>ValueError\<close> with the given message.
\<close>

datatype field_error = Missing | Invalid | Value_error string

text \<open>
  The exceptions the two files can raise or let through. \<open>ValidationError\<close> carries the
  (field, error) pairs in field order; \<open>ValueError\<close> carries its message.
\<close>

datatype exc =
    ValidationError "(string \<times> field_error) list"
  | ValueError string
  | KeyError
  | TypeError
  | OSError
  | YAMLError

subsection \<open>Keyword arguments of the configuration models\<close>

text \<open>
  A keyword argument of a constructor call in Python code: not passed, passed with a value that
  pydantic's conversion to the declared field type rejects, or passed with a value that the
  conversion accepts (\<open>Given\<close> holds the converted value). The conversion table itself belongs
  to pydantic; what \<^verbatim>\<open>config.py\<close> declares is which fields are required, their defaults and
  their validators.
\<close>

datatype 'a arg = Absent | Rejected | Given 'a

text \<open>A required field (\<^verbatim>\<open>name: str\<close>): no default.\<close>

fun required :: "'a arg \<Rightarrow> field_error + 'a" where
  "required Absent = Inl Missing"
| "required Rejected = Inl Invalid"
| "required (Given v) = Inr v"

text \<open>
  A field with a default (\<^verbatim>\<open>id: str | None = None\<close>, \<^verbatim>\<open>Field(default=...)\<close>): the default is
  taken as it is when the argument is not passed.
\<close>

fun with_default :: "'a \<Rightarrow> 'a arg \<Rightarrow> field_error + 'a" where
  "with_default d Absent = Inr d"
| "with_default d Rejected = Inl Invalid"
| "with_default d (Given v) = Inr v"

fun errs_of :: "string \<Rightarrow> field_error + 'a \<Rightarrow> (string \<times> field_error) list" where
  "errs_of k (Inl e) = [(k, e)]"
| "errs_of k (Inr v) = []"

subsection \<open>\<^verbatim>\<open>EliaChatModel\<close>\<close>

text \<open>
  The field \<^verbatim>\<open>id\<close> is called \<open>model_id\<close> here, since \<open>id\<close> is the identity function of HOL.
  \<^verbatim>\<open>api_key\<close> holds the wrapped secret and \<^verbatim>\<open>api_base\<close> the validated URL, both as the
  string they were built from; \<^verbatim>\<open>temperature\<close> holds the number its literal denotes.
\<close>

record EliaChatModel =
  name :: string
  model_id :: "string option"
  display_name :: "string option"
  provider :: "string option"
  api_key :: "string option"
  api_base :: "string option"
  organization :: "string option"
  description :: "string option"
  product :: "string option"
  temperature :: real
  max_retries :: int

record EliaChatModel_args =
  name_arg :: "string arg"
  id_arg :: "string option arg"
  display_name_arg :: "string option arg"
  provider_arg :: "string option arg"
  api_key_arg :: "string option arg"
  api_base_arg :: "string option arg"
  organization_arg :: "string option arg"
  description_arg :: "string option arg"
  product_arg :: "string option arg"
  temperature_arg :: "real arg"
  max_retries_arg :: "int arg"

text \<open>A call that passes no keyword at all; calls are written as updates of it.\<close>

definition no_model_args :: EliaChatModel_args where
  "no_model_args =
     \<lparr>name_arg = Absent, id_arg = Absent, display_name_arg = Absent, provider_arg = Absent,
      api_key_arg = Absent, api_base_arg = Absent, organization_arg = Absent,
      description_arg = Absent, product_arg = Absent, temperature_arg = Absent,
      max_retries_arg = Absent\<rparr>"

text \<open>
  \<^verbatim>\<open>EliaChatModel(**kwargs)\<close>: \<^verbatim>\<open>name\<close> is the only required field; the class declares no
  validator and no length constraint.
\<close>

definition EliaChatModel_new :: "EliaChatModel_args \<Rightarrow> exc + EliaChatModel" where
  "EliaChatModel_new a =
     (let n = required (name_arg a);
          i = with_default None (id_arg a);
          dn = with_default None (display_name_arg a);
          pv = with_default None (provider_arg a);
          ak = with_default None (api_key_arg a);
          ab = with_default None (api_base_arg a);
          og = with_default None (organization_arg a);
          ds = with_default None (description_arg a);
          pd = with_default None (product_arg a);
          tp = with_default 1.0 (temperature_arg a);
          mr = with_default 0 (max_retries_arg a)
      in case (n, i, dn, pv, ak, ab, og, ds, pd, tp, mr) of
           (Inr n', Inr i', Inr dn', Inr pv', Inr ak', Inr ab', Inr og', Inr ds', Inr pd',
            Inr tp', Inr mr') \<Rightarrow>
             Inr \<lparr>name = n', model_id = i', display_name = dn', provider = pv', api_key = ak',
                  api_base = ab', organization = og', description = ds', product = pd',
                  temperature = tp', max_retries = mr'\<rparr>
         | _ \<Rightarrow>
             Inl (ValidationError
                   (errs_of ''name'' n @ errs_of ''id'' i @ errs_of ''display_name'' dn @
                    errs_of ''provider'' pv @ errs_of ''api_key'' ak @ errs_of ''api_base'' ab @
                    errs_of ''organization'' og @ errs_of ''description'' ds @
                    errs_of ''product'' pd @ errs_of ''temperature'' tp @
                    errs_of ''max_retries'' mr)))"

text \<open>
  \<^verbatim>\<open>return self.id or self.name\<close>: Python's \<^verbatim>\<open>or\<close> yields its left operand when that is truthy,
  and \<^verbatim>\<open>None\<close> and the empty string are both falsy.
\<close>

definition lookup_key :: "EliaChatModel \<Rightarrow> string" where
  "lookup_key m =
     (case model_id m of
        None \<Rightarrow> name m
      | Some s \<Rightarrow> if s \<noteq> [] then s else name m)"

subsection \<open>The builtin catalogue\<close>

text \<open>A list display whose elements are constructor calls: the first call that raises ends it.\<close>

fun collect :: "(exc + 'a) list \<Rightarrow> exc + 'a list" where
  "collect [] = Inr []"
| "collect (Inl e # rs) = Inl e"
| "collect (Inr v # rs) = (case collect rs of Inl e \<Rightarrow> Inl e | Inr vs \<Rightarrow> Inr (v # vs))"

definition get_builtin_openai_models :: "exc + EliaChatModel list" where
  "get_builtin_openai_models = collect
     [EliaChatModel_new (no_model_args
        \<lparr>id_arg := Given (Some ''elia-gpt-4.1''),
         name_arg := Given ''gpt-4.1'',
         display_name_arg := Given (Some ''GPT-4.1''),
         provider_arg := Given (Some ''OpenAI''),
         product_arg := Given (Some ''ChatGPT''),
         description_arg := Given (Some ''Flagship GPT model for complex tasks.''),
         temperature_arg := Given 0.7\<rparr>),
      EliaChatModel_new (no_model_args
        \<lparr>id_arg := Given (Some ''elia-gpt-4o''),
         name_arg := Given ''gpt-4o'',
         display_name_arg := Given (Some ''GPT-4o''),
         provider_arg := Given (Some ''OpenAI''),
         product_arg := Given (Some ''ChatGPT''),
         description_arg := Given (Some ''Fast, intelligent, flexible GPT model.''),
         temperature_arg := Given 0.7\<rparr>),
      EliaChatModel_new (no_model_args
        \<lparr>id_arg := Given (Some ''elia-o4-mini''),
         name_arg := Given ''o4-mini'',
         display_name_arg := Given (Some ''o4-mini''),
         provider_arg := Given (Some ''OpenAI''),
         product_arg := Given (Some ''ChatGPT''),
         description_arg := Given (Some ''Faster, more affordable reasoning model'')\<rparr>)]"

definition get_builtin_anthropic_models :: "exc + EliaChatModel list" where
  "get_builtin_anthropic_models = collect
     [EliaChatModel_new (no_model_args
        \<lparr>id_arg := Given (Some ''elia-claude-3-7-sonnet-20250219''),
         name_arg := Given ''claude-3-7-sonnet-20250219'',
         display_name_arg := Given (Some ''Claude 3.7 Sonnet''),
         provider_arg := Given (Some ''Anthropic''),
         product_arg := Given (Some ''Claude 3.7''),
         description_arg := Given (Some
           ''Anthropic's most intelligent model with extended thinking capabilities'')\<rparr>),
      EliaChatModel_new (no_model_args
        \<lparr>id_arg := Given (Some ''elia-claude-3-5-sonnet-20241022''),
         name_arg := Given ''claude-3-5-sonnet-20241022'',
         display_name_arg := Given (Some ''Claude 3.5 Sonnet''),
         provider_arg := Given (Some ''Anthropic''),
         product_arg := Given (Some ''Claude 3.5 Sonnet''),
         description_arg := Given (Some ''Anthropic's previous most intelligent model.'')\<rparr>),
      EliaChatModel_new (no_model_args
        \<lparr>id_arg := Given (Some ''elia-claude-3-5-haiku-20241022''),
         name_arg := Given ''claude-3-5-haiku-20241022'',
         display_name_arg := Given (Some ''Claude 3.5 Haiku''),
         provider_arg := Given (Some ''Anthropic''),
         product_arg := Given (Some ''Claude 3.5 Haiku''),
         description_arg := Given (Some
           ''Anthropic's fastest and most cost-effective model.'')\<rparr>)]"

definition get_builtin_google_models :: "exc + EliaChatModel list" where
  "get_builtin_google_models = collect
     [EliaChatModel_new (no_model_args
        \<lparr>id_arg := Given (Some ''elia-gemini-2.5-pro-preview-05-06''),
         name_arg := Given ''gemini-2.5-pro-preview-05-06'',
         display_name_arg := Given (Some ''Gemini 2.5 Pro Preview''),
         provider_arg := Given (Some ''Google''),
         product_arg := Given (Some ''Gemini''),
         description_arg := Given (Some ''Google's most powerful thinking model.'')\<rparr>),
      EliaChatModel_new (no_model_args
        \<lparr>id_arg := Given (Some ''elia-gemini-2.5-flash-preview-05-20''),
         name_arg := Given ''gemini-2.5-flash-preview-05-20'',
         display_name_arg := Given (Some ''Gemini 2.5 Flash Preview''),
         provider_arg := Given (Some ''Google''),
         product_arg := Given (Some ''Gemini''),
         description_arg := Given (Some
           ''Google's first hybrid reasoning model with thinking budgets.'')\<rparr>)]"

text \<open>
  \<^verbatim>\<open>a() + b() + c()\<close>: the three calls run left to right, then the lists are concatenated.
\<close>

definition get_builtin_models :: "exc + EliaChatModel list" where
  "get_builtin_models =
     (case get_builtin_openai_models of
        Inl e \<Rightarrow> Inl e
      | Inr a \<Rightarrow>
         (case get_builtin_anthropic_models of
            Inl e \<Rightarrow> Inl e
          | Inr b \<Rightarrow>
             (case get_builtin_google_models of
                Inl e \<Rightarrow> Inl e
              | Inr c \<Rightarrow> Inr (a @ b @ c))))"

subsection \<open>\<^verbatim>\<open>LaunchConfig\<close>\<close>

text \<open>
  \<^verbatim>\<open>os.getenv(key, default)\<close> on the environment \<open>env\<close>.
\<close>

definition getenv :: "(string \<rightharpoonup> string) \<Rightarrow> string \<Rightarrow> string \<Rightarrow> string" where
  "getenv env k d = (case env k of None \<Rightarrow> d | Some v \<Rightarrow> v)"

text \<open>
  The state of the interpreter that \<^verbatim>\<open>LaunchConfig\<close> depends on: the environment variables,
  and the default that the class body stored for \<^verbatim>\<open>system_prompt\<close>. The expression
  \<^verbatim>\<open>os.getenv("ELIA_SYSTEM_PROMPT", ...)\<close> is the argument of \<^verbatim>\<open>Field(default=...)\<close> in the class
  body, so it is evaluated once, when \<^verbatim>\<open>config.py\<close> is imported.
\<close>

record process =
  environ :: "string \<rightharpoonup> string"
  system_prompt_default :: string

definition import_config :: "(string \<rightharpoonup> string) \<Rightarrow> process" where
  "import_config env =
     \<lparr>environ = env,
      system_prompt_default =
        getenv env ''ELIA_SYSTEM_PROMPT'' ''You are a helpful assistant named Elia.''\<rparr>"

text \<open>\<^verbatim>\<open>os.environ[k] = v\<close> in a running process.\<close>

definition setenv :: "string \<Rightarrow> string \<Rightarrow> process \<Rightarrow> process" where
  "setenv k v p = p\<lparr>environ := (environ p)(k \<mapsto> v)\<rparr>"

record LaunchConfig =
  default_model :: string
  system_prompt :: string
  message_code_theme :: string
  models :: "EliaChatModel list"
  builtin_models :: "EliaChatModel list"
  theme :: string

text \<open>
  \<^verbatim>\<open>init=False\<close> on \<^verbatim>\<open>builtin_models\<close> concerns pydantic dataclasses only; on a
  \<^verbatim>\<open>BaseModel\<close> the keyword is accepted like any other, so it is an argument here too.
\<close>

record LaunchConfig_args =
  default_model_arg :: "string arg"
  system_prompt_arg :: "string arg"
  message_code_theme_arg :: "string arg"
  models_arg :: "EliaChatModel list arg"
  builtin_models_arg :: "EliaChatModel list arg"
  theme_arg :: "string arg"

definition no_config_args :: LaunchConfig_args where
  "no_config_args =
     \<lparr>default_model_arg = Absent, system_prompt_arg = Absent, message_code_theme_arg = Absent,
      models_arg = Absent, builtin_models_arg = Absent, theme_arg = Absent\<rparr>"

text \<open>
  Python's \<^verbatim>\<open>str.isspace\<close> on the characters a \<open>char\<close> can hold (code points below 256):
  U+0009 to U+000D, U+001C to U+0020, U+0085 and U+00A0.
\<close>

definition isspace :: "char \<Rightarrow> bool" where
  "isspace c =
     (let n = (of_char c :: nat)
      in (9 \<le> n \<and> n \<le> 13) \<or> (28 \<le> n \<and> n \<le> 32) \<or> n = 133 \<or> n = 160)"

text \<open>\<^verbatim>\<open>value.strip()\<close>: whitespace removed at both ends.\<close>

definition strip :: "string \<Rightarrow> string" where
  "strip s = rev (dropWhile isspace (rev (dropWhile isspace s)))"

text \<open>The validator of \<^verbatim>\<open>system_prompt\<close>.\<close>

definition non_empty :: "string \<Rightarrow> exc + string" where
  "non_empty v =
     (if v = [] \<or> strip v = [] then Inl (ValueError ''system prompt must not be empty'')
      else Inr v)"

text \<open>
  A field validator runs on a value that was passed and has the declared type. A
  \<^verbatim>\<open>ValueError\<close> it raises becomes an entry of the \<^verbatim>\<open>ValidationError\<close>; any other exception
  leaves the constructor as it is. The default of a field is not validated (pydantic
  validates defaults only under \<^verbatim>\<open>validate_default=True\<close>, which the class does not set).
\<close>

fun validated :: "('a \<Rightarrow> exc + 'a) \<Rightarrow> 'a \<Rightarrow> 'a arg \<Rightarrow> exc + (field_error + 'a)" where
  "validated f d Absent = Inr (Inr d)"
| "validated f d Rejected = Inr (Inl Invalid)"
| "validated f d (Given v) =
     (case f v of
        Inr w \<Rightarrow> Inr (Inr w)
      | Inl (ValueError msg) \<Rightarrow> Inr (Inl (Value_error msg))
      | Inl e \<Rightarrow> Inl e)"

text \<open>A field with \<^verbatim>\<open>default_factory\<close>: the factory is called when the argument is not passed.\<close>

fun with_factory :: "(exc + 'a) \<Rightarrow> 'a arg \<Rightarrow> exc + (field_error + 'a)" where
  "with_factory fac Absent = (case fac of Inl e \<Rightarrow> Inl e | Inr d \<Rightarrow> Inr (Inr d))"
| "with_factory fac Rejected = Inr (Inl Invalid)"
| "with_factory fac (Given v) = Inr (Inr v)"

text \<open>\<^verbatim>\<open>LaunchConfig(**kwargs)\<close> in the process \<open>p\<close>; the fields are handled in declaration order.\<close>

definition LaunchConfig_new :: "process \<Rightarrow> LaunchConfig_args \<Rightarrow> exc + LaunchConfig" where
  "LaunchConfig_new p a =
     (let dm = with_default ''elia-gpt-4.1'' (default_model_arg a)
      in case validated non_empty (system_prompt_default p) (system_prompt_arg a) of
           Inl e \<Rightarrow> Inl e
         | Inr sp \<Rightarrow>
            (let mc = with_default ''monokai'' (message_code_theme_arg a)
             in case with_factory (Inr []) (models_arg a) of
                  Inl e \<Rightarrow> Inl e
                | Inr ms \<Rightarrow>
                   (case with_factory get_builtin_models (builtin_models_arg a) of
                      Inl e \<Rightarrow> Inl e
                    | Inr bm \<Rightarrow>
                       (let th = with_default ''nebula'' (theme_arg a)
                        in case (dm, sp, mc, ms, bm, th) of
                             (Inr dm', Inr sp', Inr mc', Inr ms', Inr bm', Inr th') \<Rightarrow>
                               Inr \<lparr>default_model = dm', system_prompt = sp',
                                    message_code_theme = mc', models = ms',
                                    builtin_models = bm', theme = th'\<rparr>
                           | _ \<Rightarrow>
                               Inl (ValidationError
                                     (errs_of ''default_model'' dm @ errs_of ''system_prompt'' sp @
                                      errs_of ''message_code_theme'' mc @ errs_of ''models'' ms @
                                      errs_of ''builtin_models'' bm @ errs_of ''theme'' th))))))"

text \<open>\<^verbatim>\<open>self.models + self.builtin_models\<close>.\<close>

definition all_models :: "LaunchConfig \<Rightarrow> EliaChatModel list" where
  "all_models c = models c @ builtin_models c"

text \<open>\<^verbatim>\<open>LaunchConfig.get_current()\<close>: \<^verbatim>\<open>cls()\<close>.\<close>

definition get_current :: "process \<Rightarrow> exc + LaunchConfig" where
  "get_current p = LaunchConfig_new p no_config_args"

subsection \<open>Parsed YAML documents\<close>

text \<open>
  What \<^verbatim>\<open>yaml.load\<close> returns for a theme file: \<^verbatim>\<open>None\<close> for an empty document, a scalar, a list
  or a dict (whose keys may be any value). A dict is the list of its items, with distinct keys.
  Floats, timestamps and binary scalars are left out of the model.
\<close>

datatype yaml =
    YNull
  | YBool bool
  | YInt int
  | YStr string
  | YSeq "yaml list"
  | YMap "(yaml \<times> yaml) list"

text \<open>Truth value of a Python object, as \<^verbatim>\<open>or\<close> tests it.\<close>

fun truthy :: "yaml \<Rightarrow> bool" where
  "truthy YNull = False"
| "truthy (YBool b) = b"
| "truthy (YInt i) = (i \<noteq> 0)"
| "truthy (YStr s) = (s \<noteq> [])"
| "truthy (YSeq xs) = (xs \<noteq> [])"
| "truthy (YMap kvs) = (kvs \<noteq> [])"

text \<open>
  The arguments of a constructor call \<^verbatim>\<open>Theme(**d)\<close> are the items of \<open>d\<close> under their string
  keys. Pydantic's conversion of a Python value to a field type, in its default (lax) mode:
  a \<^verbatim>\<open>str\<close> field takes a string; a \<^verbatim>\<open>bool\<close> field takes a bool, the integers 0 and 1 and the
  strings below, compared without regard to ASCII case; a \<^verbatim>\<open>dict\<close> field takes a dict.
\<close>

definition lower_char :: "char \<Rightarrow> char" where
  "lower_char c =
     (let n = (of_char c :: nat) in if 65 \<le> n \<and> n \<le> 90 then char_of (n + 32) else c)"

definition as_str :: "yaml \<Rightarrow> string option" where
  "as_str v = (case v of YStr s \<Rightarrow> Some s | _ \<Rightarrow> None)"

definition as_opt_str :: "yaml \<Rightarrow> string option option" where
  "as_opt_str v = (case v of YNull \<Rightarrow> Some None | YStr s \<Rightarrow> Some (Some s) | _ \<Rightarrow> None)"

definition as_bool :: "yaml \<Rightarrow> bool option" where
  "as_bool v =
     (case v of
        YBool b \<Rightarrow> Some b
      | YInt i \<Rightarrow> if i = 0 then Some False else if i = 1 then Some True else None
      | YStr s \<Rightarrow>
          if s = ''0'' \<or> map lower_char s \<in> set [''f'', ''n'', ''no'', ''off'', ''false'']
          then Some False
          else if s = ''1'' \<or> map lower_char s \<in> set [''t'', ''y'', ''on'', ''yes'', ''true'']
          then Some True
          else None
      | _ \<Rightarrow> None)"

definition as_dict :: "yaml \<Rightarrow> (yaml \<times> yaml) list option" where
  "as_dict v = (case v of YMap kvs \<Rightarrow> Some kvs | _ \<Rightarrow> None)"

definition coerce :: "(yaml \<Rightarrow> 'a option) \<Rightarrow> yaml option \<Rightarrow> 'a arg" where
  "coerce f x =
     (case x of
        None \<Rightarrow> Absent
      | Some v \<Rightarrow> (case f v of None \<Rightarrow> Rejected | Some a \<Rightarrow> Given a))"

subsection \<open>\<^verbatim>\<open>Theme\<close>\<close>

record Theme =
  name :: string
  primary :: string
  secondary :: "string option"
  background :: "string option"
  surface :: "string option"
  panel :: "string option"
  warning :: "string option"
  error :: "string option"
  success :: "string option"
  accent :: "string option"
  dark :: bool
  variables :: "(yaml \<times> yaml) list"

text \<open>
  \<^verbatim>\<open>Theme(**kw)\<close> on keyword arguments \<open>kw\<close>. \<^verbatim>\<open>name\<close>, \<^verbatim>\<open>primary\<close> and \<^verbatim>\<open>variables\<close> are
  declared without a default, so they are required; keywords that are not fields are ignored
  (pydantic's default \<^verbatim>\<open>extra='ignore'\<close>).
\<close>

definition Theme_new :: "(string \<times> yaml) list \<Rightarrow> exc + Theme" where
  "Theme_new kw =
     (let n = required (coerce as_str (map_of kw ''name''));
          p = required (coerce as_str (map_of kw ''primary''));
          sc = with_default None (coerce as_opt_str (map_of kw ''secondary''));
          bg = with_default None (coerce as_opt_str (map_of kw ''background''));
          sf = with_default None (coerce as_opt_str (map_of kw ''surface''));
          pn = with_default None (coerce as_opt_str (map_of kw ''panel''));
          wn = with_default None (coerce as_opt_str (map_of kw ''warning''));
          er = with_default None (coerce as_opt_str (map_of kw ''error''));
          su = with_default None (coerce as_opt_str (map_of kw ''success''));
          ac = with_default None (coerce as_opt_str (map_of kw ''accent''));
          dk = with_default True (coerce as_bool (map_of kw ''dark''));
          vs = required (coerce as_dict (map_of kw ''variables''))
      in case (n, p, sc, bg, sf, pn, wn, er, su, ac, dk, vs) of
           (Inr n', Inr p', Inr sc', Inr bg', Inr sf', Inr pn', Inr wn', Inr er', Inr su',
            Inr ac', Inr dk', Inr vs') \<Rightarrow>
             Inr \<lparr>name = n', primary = p', secondary = sc', background = bg', surface = sf',
                  panel = pn', warning = wn', error = er', success = su', accent = ac',
                  dark = dk', variables = vs'\<rparr>
         | _ \<Rightarrow>
             Inl (ValidationError
                   (errs_of ''name'' n @ errs_of ''primary'' p @ errs_of ''secondary'' sc @
                    errs_of ''background'' bg @ errs_of ''surface'' sf @ errs_of ''panel'' pn @
                    errs_of ''warning'' wn @ errs_of ''error'' er @ errs_of ''success'' su @
                    errs_of ''accent'' ac @ errs_of ''dark'' dk @ errs_of ''variables'' vs)))"

text \<open>
  The call \<^verbatim>\<open>Theme(**theme_content)\<close>: unpacking with \<^verbatim>\<open>**\<close> raises \<^verbatim>\<open>TypeError\<close> when the
  object is not a mapping or one of its keys is not a string.
\<close>

fun str_keys :: "(yaml \<times> yaml) list \<Rightarrow> (string \<times> yaml) list option" where
  "str_keys [] = Some []"
| "str_keys ((YStr k, v) # kvs) =
     (case str_keys kvs of None \<Rightarrow> None | Some kw \<Rightarrow> Some ((k, v) # kw))"
| "str_keys (kv # kvs) = None"

definition Theme_call :: "yaml \<Rightarrow> exc + Theme" where
  "Theme_call c =
     (case c of
        YMap kvs \<Rightarrow> (case str_keys kvs of None \<Rightarrow> Inl TypeError | Some kw \<Rightarrow> Theme_new kw)
      | _ \<Rightarrow> Inl TypeError)"

subsection \<open>\<^verbatim>\<open>Theme.to_color_system\<close>\<close>

text \<open>A value held by a field of a \<^verbatim>\<open>Theme\<close>, as \<^verbatim>\<open>model_dump\<close> hands it out.\<close>

datatype field_value =
    Str string
  | Opt_str "string option"
  | Bool bool
  | Dict "(yaml \<times> yaml) list"

text \<open>
  The declared fields in declaration order, each with its \<^verbatim>\<open>exclude\<close> flag: only \<^verbatim>\<open>name\<close> is
  declared with \<^verbatim>\<open>Field(exclude=True)\<close>.
\<close>

definition Theme_fields :: "Theme \<Rightarrow> (string \<times> bool \<times> field_value) list" where
  "Theme_fields t =
     [(''name'', True, Str (name t)),
      (''primary'', False, Str (primary t)),
      (''secondary'', False, Opt_str (secondary t)),
      (''background'', False, Opt_str (background t)),
      (''surface'', False, Opt_str (surface t)),
      (''panel'', False, Opt_str (panel t)),
      (''warning'', False, Opt_str (warning t)),
      (''error'', False, Opt_str (error t)),
      (''success'', False, Opt_str (success t)),
      (''accent'', False, Opt_str (accent t)),
      (''dark'', False, Bool (dark t)),
      (''variables'', False, Dict (variables t))]"

text \<open>
  \<^verbatim>\<open>self.model_dump(exclude=ex)\<close>: the dict of the fields that are neither declared with
  \<^verbatim>\<open>exclude=True\<close> nor named in \<open>ex\<close>.
\<close>

definition model_dump :: "string list \<Rightarrow> Theme \<Rightarrow> (string \<times> field_value) list" where
  "model_dump ex t =
     map (\<lambda>(k, x, v). (k, v))
       (filter (\<lambda>(k, x, v). \<not> x \<and> k \<notin> set ex) (Theme_fields t))"

text \<open>
  \<^verbatim>\<open>ColorSystem(**self.model_dump(exclude={...}))\<close>. \<^verbatim>\<open>ColorSystem\<close> is a class of the textual
  library; its constructor is the parameter \<open>ColorSystem\<close>.
\<close>

definition to_color_system :: "((string \<times> field_value) list \<Rightarrow> 'c) \<Rightarrow> Theme \<Rightarrow> 'c" where
  "to_color_system ColorSystem t =
     ColorSystem (model_dump [''text_area'', ''syntax'', ''variable'', ''url'', ''method''] t)"

subsection \<open>\<^verbatim>\<open>load_user_themes\<close>\<close>

text \<open>
  One entry of \<^verbatim>\<open>theme_directory().iterdir()\<close>: the path as text, its \<^verbatim>\<open>suffix\<close>, and what
  opening the file and running \<^verbatim>\<open>yaml.load\<close> on it gives: the parsed document, or the
  exception of the file system or of the parser.
\<close>

record entry =
  path :: string
  path_suffix :: string
  loaded :: "exc + yaml"

text \<open>\<^verbatim>\<open>yaml.load(...) or {}\<close>.\<close>

definition or_empty :: "yaml \<Rightarrow> yaml" where
  "or_empty d = (if truthy d then d else YMap [])"

text \<open>
  \<^verbatim>\<open>theme_content["name"]\<close>: \<^verbatim>\<open>KeyError\<close> on a dict without the key, \<^verbatim>\<open>TypeError\<close> on an object
  that is not a dict (a scalar or a list cannot be indexed by a string).
\<close>

definition getitem :: "yaml \<Rightarrow> yaml \<Rightarrow> exc + yaml" where
  "getitem c k =
     (case c of
        YMap kvs \<Rightarrow> (case map_of kvs k of None \<Rightarrow> Inl KeyError | Some v \<Rightarrow> Inr v)
      | _ \<Rightarrow> Inl TypeError)"

text \<open>
  \<^verbatim>\<open>themes[k] = t\<close> on the result dict, declared \<^verbatim>\<open>dict[str, Theme]\<close>; the model keeps string
  keys only and has \<^verbatim>\<open>TypeError\<close> for any other key.
\<close>

definition setitem :: "(string \<rightharpoonup> Theme) \<Rightarrow> yaml \<Rightarrow> Theme \<Rightarrow> exc + (string \<rightharpoonup> Theme)" where
  "setitem themes k t = (case k of YStr s \<Rightarrow> Inr (themes(s \<mapsto> t)) | _ \<Rightarrow> Inl TypeError)"

text \<open>
  The assignment \<^verbatim>\<open>themes[theme_content["name"]] = Theme(**theme_content)\<close>. Python evaluates
  the right-hand side of an assignment first, then the subscript of the target.
\<close>

definition assign_theme :: "(string \<rightharpoonup> Theme) \<Rightarrow> yaml \<Rightarrow> exc + (string \<rightharpoonup> Theme)" where
  "assign_theme themes c =
     (case Theme_call c of
        Inl e \<Rightarrow> Inl e
      | Inr t \<Rightarrow> (case getitem c (YStr ''name'') of Inl e \<Rightarrow> Inl e | Inr k \<Rightarrow> setitem themes k t))"

text \<open>The message of the \<^verbatim>\<open>ValueError\<close> in the \<^verbatim>\<open>except KeyError\<close> clause.\<close>

definition invalid_theme_file :: "string \<Rightarrow> exc" where
  "invalid_theme_file p = ValueError (''Invalid theme file '' @ p @ ''. A `name` is required.'')"

text \<open>The body of the loop for one \<^verbatim>\<open>.yaml\<close> or \<^verbatim>\<open>.yml\<close> file, with its \<^verbatim>\<open>try\<close> statement.\<close>

definition load_file :: "(string \<rightharpoonup> Theme) \<Rightarrow> entry \<Rightarrow> exc + (string \<rightharpoonup> Theme)" where
  "load_file themes e =
     (case loaded e of
        Inl x \<Rightarrow> Inl x
      | Inr d \<Rightarrow>
         (case assign_theme themes (or_empty d) of
            Inl KeyError \<Rightarrow> Inl (invalid_theme_file (path e))
          | r \<Rightarrow> r))"

fun load_loop :: "(string \<rightharpoonup> Theme) \<Rightarrow> entry list \<Rightarrow> exc + (string \<rightharpoonup> Theme)" where
  "load_loop themes [] = Inr themes"
| "load_loop themes (e # es) =
     (if path_suffix e = ''.yaml'' \<or> path_suffix e = ''.yml''
      then (case load_file themes e of Inl x \<Rightarrow> Inl x | Inr themes' \<Rightarrow> load_loop themes' es)
      else load_loop themes es)"

text \<open>\<^verbatim>\<open>load_user_themes()\<close> on the listing of the theme directory.\<close>

definition load_user_themes :: "entry list \<Rightarrow> exc + (string \<rightharpoonup> Theme)" where
  "load_user_themes listing = load_loop Map.empty listing"

section \<open>Properties\<close>

subsection \<open>Model descriptors\<close>

lemma required_Inr: "required x = Inr v \<longleftrightarrow> x = Given v"
  by (cases x) auto

lemma with_default_Inr: "with_default d x = Inr v \<longleftrightarrow> (x = Absent \<and> v = d) \<or> x = Given v"
  by (cases x) auto

lemma EliaChatModel_new_Inr:
  assumes "EliaChatModel_new a = Inr m"
  shows "name_arg a = Given (EliaChatModel.name m)"
    and "(id_arg a = Absent \<and> model_id m = None) \<or> id_arg a = Given (model_id m)"
proof -
  from assms obtain n i where n: "required (name_arg a) = Inr n" and i: "with_default None (id_arg a) = Inr i"
    and m: "EliaChatModel.name m = n" "model_id m = i"
    by (auto simp: EliaChatModel_new_def Let_def split: sum.splits)
  show "name_arg a = Given (EliaChatModel.name m)" using n m by (simp add: required_Inr)
  show "(id_arg a = Absent \<and> model_id m = None) \<or> id_arg a = Given (model_id m)"
    using i m by (auto simp: with_default_Inr)
qed

lemma EliaChatModel_new_name_only:
  "EliaChatModel_new (no_model_args\<lparr>name_arg := Given n\<rparr>) =
     Inr \<lparr>EliaChatModel.name = n, model_id = None, display_name = None, provider = None, api_key = None,
          api_base = None, organization = None, description = None, product = None,
          temperature = 1, max_retries = 0\<rparr>"
  by (simp add: EliaChatModel_new_def no_model_args_def)

lemma EliaChatModel_new_missing_name:
  "name_arg a = Absent \<Longrightarrow>
     \<exists>rest. EliaChatModel_new a = Inl (ValidationError ((''name'', Missing) # rest))"
  by (simp add: EliaChatModel_new_def Let_def)

text \<open>
  Claim C1, as the code has it. For every accepted construction, \<open>lookup_key\<close> is the \<^verbatim>\<open>id\<close>
  when an \<^verbatim>\<open>id\<close> was passed and is not the empty string; it is the \<^verbatim>\<open>name\<close> when \<^verbatim>\<open>id\<close> was
  not passed, is \<^verbatim>\<open>None\<close> or is the empty string; and it is empty exactly when the \<^verbatim>\<open>name\<close> is
  empty and the \<^verbatim>\<open>id\<close> is unset or empty.
\<close>

theorem lookup_key_id_or_name:
  assumes "EliaChatModel_new a = Inr m"
  shows "(\<forall>i. id_arg a = Given (Some i) \<and> i \<noteq> [] \<longrightarrow> lookup_key m = i) \<and>
         (id_arg a = Absent \<or> id_arg a = Given None \<or> id_arg a = Given (Some []) \<longrightarrow>
            name_arg a = Given (lookup_key m)) \<and>
         (lookup_key m = [] \<longleftrightarrow>
            name_arg a = Given [] \<and>
            (id_arg a = Absent \<or> id_arg a = Given None \<or> id_arg a = Given (Some [])))"
proof -
  note n = EliaChatModel_new_Inr(1)[OF assms] and i = EliaChatModel_new_Inr(2)[OF assms]
  show ?thesis
  proof (cases "model_id m")
    case None
    with n i show ?thesis by (auto simp: lookup_key_def)
  next
    case (Some s)
    with n i show ?thesis by (cases "s = []") (auto simp: lookup_key_def)
  qed
qed

text \<open>The theorem at the arguments \<^verbatim>\<open>id="elia-gpt-4o", name="gpt-4o"\<close>.\<close>

theorem lookup_key_id_or_name_witness:
  "EliaChatModel_new (no_model_args\<lparr>id_arg := Given (Some ''elia-gpt-4o''), name_arg := Given ''gpt-4o''\<rparr>) =
     Inr \<lparr>EliaChatModel.name = ''gpt-4o'', model_id = Some ''elia-gpt-4o'', display_name = None,
          provider = None, api_key = None, api_base = None, organization = None,
          description = None, product = None, temperature = 1, max_retries = 0\<rparr> \<and>
   lookup_key \<lparr>EliaChatModel.name = ''gpt-4o'', model_id = Some ''elia-gpt-4o'', display_name = None,
          provider = None, api_key = None, api_base = None, organization = None,
          description = None, product = None, temperature = 1, max_retries = 0\<rparr> = ''elia-gpt-4o''"
proof -
  have h: "EliaChatModel_new (no_model_args\<lparr>id_arg := Given (Some ''elia-gpt-4o''), name_arg := Given ''gpt-4o''\<rparr>) =
     Inr \<lparr>EliaChatModel.name = ''gpt-4o'', model_id = Some ''elia-gpt-4o'', display_name = None,
          provider = None, api_key = None, api_base = None, organization = None,
          description = None, product = None, temperature = 1, max_retries = 0\<rparr>"
    by (simp add: EliaChatModel_new_def no_model_args_def)
  show ?thesis using h lookup_key_id_or_name[OF h] by (simp add: no_model_args_def)
qed

text \<open>
  Claim C1 as stated fails: \<^verbatim>\<open>EliaChatModel(name="")\<close> is accepted and its \<open>lookup_key\<close> is
  empty; and with \<^verbatim>\<open>id=""\<close> the \<^verbatim>\<open>id\<close> is set, yet \<open>lookup_key\<close> is the \<^verbatim>\<open>name\<close>.
\<close>

theorem lookup_key_counterexample:
  "map_sum id lookup_key (EliaChatModel_new (no_model_args\<lparr>name_arg := Given ''''\<rparr>)) = Inr '''' \<and>
   map_sum id model_id
     (EliaChatModel_new (no_model_args\<lparr>name_arg := Given ''gpt-4o'', id_arg := Given (Some '''')\<rparr>)) =
     Inr (Some '''') \<and>
   map_sum id lookup_key
     (EliaChatModel_new (no_model_args\<lparr>name_arg := Given ''gpt-4o'', id_arg := Given (Some '''')\<rparr>)) =
     Inr ''gpt-4o''"
  by (simp add: EliaChatModel_new_def no_model_args_def lookup_key_def)

text \<open>
  Claim C8, as the code has it. A construction that does not pass \<^verbatim>\<open>name\<close> fails with a
  validation error whose first entry reports \<^verbatim>\<open>name\<close> as missing; a construction that passes
  any string as \<^verbatim>\<open>name\<close>, the empty one included, succeeds and stores it.
\<close>

theorem name_required:
  "(name_arg a = Absent \<longrightarrow>
      (\<exists>rest. EliaChatModel_new a = Inl (ValidationError ((''name'', Missing) # rest)))) \<and>
   (\<exists>m. EliaChatModel_new (no_model_args\<lparr>name_arg := Given n\<rparr>) = Inr m \<and> EliaChatModel.name m = n)"
  using EliaChatModel_new_missing_name[of a] by (simp add: EliaChatModel_new_name_only)

text \<open>The theorem at the call without arguments.\<close>

theorem name_required_witness:
  "name_arg no_model_args = Absent \<and>
   EliaChatModel_new no_model_args = Inl (ValidationError [(''name'', Missing)])"
  using name_required[of no_model_args "''x''"]
  by (simp add: EliaChatModel_new_def no_model_args_def)

text \<open>Claim C8 as stated fails: \<^verbatim>\<open>EliaChatModel(name="")\<close> returns an instance.\<close>

theorem empty_name_counterexample:
  "map_sum id EliaChatModel.name (EliaChatModel_new (no_model_args\<lparr>name_arg := Given ''''\<rparr>)) = Inr ''''"
  by (simp add: EliaChatModel_new_def no_model_args_def)

subsection \<open>The builtin lists\<close>

text \<open>Every constructor call of the three lists succeeds; the lists are these.\<close>

lemma get_builtin_openai_models_eq:
  "get_builtin_openai_models = Inr
     [\<lparr>EliaChatModel.name = ''gpt-4.1'', model_id = Some ''elia-gpt-4.1'',
       display_name = Some ''GPT-4.1'', provider = Some ''OpenAI'', api_key = None,
       api_base = None, organization = None,
       description = Some ''Flagship GPT model for complex tasks.'',
       product = Some ''ChatGPT'', temperature = 0.7, max_retries = 0\<rparr>,
      \<lparr>EliaChatModel.name = ''gpt-4o'', model_id = Some ''elia-gpt-4o'',
       display_name = Some ''GPT-4o'', provider = Some ''OpenAI'', api_key = None,
       api_base = None, organization = None,
       description = Some ''Fast, intelligent, flexible GPT model.'',
       product = Some ''ChatGPT'', temperature = 0.7, max_retries = 0\<rparr>,
      \<lparr>EliaChatModel.name = ''o4-mini'', model_id = Some ''elia-o4-mini'',
       display_name = Some ''o4-mini'', provider = Some ''OpenAI'', api_key = None,
       api_base = None, organization = None,
       description = Some ''Faster, more affordable reasoning model'',
       product = Some ''ChatGPT'', temperature = 1, max_retries = 0\<rparr>]"
  by (simp add: get_builtin_openai_models_def EliaChatModel_new_def no_model_args_def)

lemma get_builtin_anthropic_models_eq:
  "get_builtin_anthropic_models = Inr
     [\<lparr>EliaChatModel.name = ''claude-3-7-sonnet-20250219'',
       model_id = Some ''elia-claude-3-7-sonnet-20250219'',
       display_name = Some ''Claude 3.7 Sonnet'', provider = Some ''Anthropic'',
       api_key = None, api_base = None, organization = None,
       description = Some
         ''Anthropic's most intelligent model with extended thinking capabilities'',
       product = Some ''Claude 3.7'', temperature = 1, max_retries = 0\<rparr>,
      \<lparr>EliaChatModel.name = ''claude-3-5-sonnet-20241022'',
       model_id = Some ''elia-claude-3-5-sonnet-20241022'',
       display_name = Some ''Claude 3.5 Sonnet'', provider = Some ''Anthropic'',
       api_key = None, api_base = None, organization = None,
       description = Some ''Anthropic's previous most intelligent model.'',
       product = Some ''Claude 3.5 Sonnet'', temperature = 1, max_retries = 0\<rparr>,
      \<lparr>EliaChatModel.name = ''claude-3-5-haiku-20241022'',
       model_id = Some ''elia-claude-3-5-haiku-20241022'',
       display_name = Some ''Claude 3.5 Haiku'', provider = Some ''Anthropic'',
       api_key = None, api_base = None, organization = None,
       description = Some ''Anthropic's fastest and most cost-effective model.'',
       product = Some ''Claude 3.5 Haiku'', temperature = 1, max_retries = 0\<rparr>]"
  by (simp add: get_builtin_anthropic_models_def EliaChatModel_new_def no_model_args_def)

lemma get_builtin_google_models_eq:
  "get_builtin_google_models = Inr
     [\<lparr>EliaChatModel.name = ''gemini-2.5-pro-preview-05-06'',
       model_id = Some ''elia-gemini-2.5-pro-preview-05-06'',
       display_name = Some ''Gemini 2.5 Pro Preview'', provider = Some ''Google'',
       api_key = None, api_base = None, organization = None,
       description = Some ''Google's most powerful thinking model.'',
       product = Some ''Gemini'', temperature = 1, max_retries = 0\<rparr>,
      \<lparr>EliaChatModel.name = ''gemini-2.5-flash-preview-05-20'',
       model_id = Some ''elia-gemini-2.5-flash-preview-05-20'',
       display_name = Some ''Gemini 2.5 Flash Preview'', provider = Some ''Google'',
       api_key = None, api_base = None, organization = None,
       description = Some ''Google's first hybrid reasoning model with thinking budgets.'',
       product = Some ''Gemini'', temperature = 1, max_retries = 0\<rparr>]"
  by (simp add: get_builtin_google_models_def EliaChatModel_new_def no_model_args_def)

lemma get_builtin_models_ok:
  "\<exists>a b c. get_builtin_openai_models = Inr a \<and> get_builtin_anthropic_models = Inr b \<and>
     get_builtin_google_models = Inr c \<and> get_builtin_models = Inr (a @ b @ c)"
  by (simp add: get_builtin_models_def get_builtin_openai_models_eq
      get_builtin_anthropic_models_eq get_builtin_google_models_eq)

text \<open>
  Claim C6. \<open>get_builtin_models\<close> has no input and no failure: it is the concatenation of the
  lists of \<open>get_builtin_openai_models\<close>, \<open>get_builtin_anthropic_models\<close> and
  \<open>get_builtin_google_models\<close>, in this order, and the \<^verbatim>\<open>id\<close> values of its eight entries are
  pairwise distinct.
\<close>

theorem builtin_models_fixed_distinct:
  "\<exists>a b c. get_builtin_openai_models = Inr a \<and> get_builtin_anthropic_models = Inr b \<and>
     get_builtin_google_models = Inr c \<and> get_builtin_models = Inr (a @ b @ c) \<and>
     map model_id (a @ b @ c) =
       [Some ''elia-gpt-4.1'', Some ''elia-gpt-4o'', Some ''elia-o4-mini'',
        Some ''elia-claude-3-7-sonnet-20250219'', Some ''elia-claude-3-5-sonnet-20241022'',
        Some ''elia-claude-3-5-haiku-20241022'', Some ''elia-gemini-2.5-pro-preview-05-06'',
        Some ''elia-gemini-2.5-flash-preview-05-20''] \<and>
     distinct (map model_id (a @ b @ c))"
  by (simp add: get_builtin_models_def get_builtin_openai_models_eq
      get_builtin_anthropic_models_eq get_builtin_google_models_eq)

subsection \<open>Launch configuration\<close>

lemma strip_empty_iff: "strip s = [] \<longleftrightarrow> list_all isspace s"
proof
  assume "list_all isspace s"
  then have "\<forall>x\<in>set s. isspace x" by (simp add: list_all_iff)
  then have d: "dropWhile isspace s = []" by (rule dropWhile_eq_Nil_conv[THEN iffD2])
  show "strip s = []" unfolding strip_def d by simp
next
  assume "strip s = []"
  then have all: "\<forall>x\<in>set (dropWhile isspace s). isspace x"
    by (simp add: strip_def dropWhile_eq_Nil_conv)
  have "dropWhile isspace s = []"
  proof (rule ccontr)
    assume ne: "dropWhile isspace s \<noteq> []"
    then have "\<not> isspace (hd (dropWhile isspace s))" by (rule hd_dropWhile)
    moreover from ne have "hd (dropWhile isspace s) \<in> set (dropWhile isspace s)" by simp
    ultimately show False using all by blast
  qed
  then show "list_all isspace s" by (simp add: list_all_iff)
qed

lemma non_empty_blank:
  "list_all isspace s \<Longrightarrow> non_empty s = Inl (ValueError ''system prompt must not be empty'')"
  by (simp add: non_empty_def strip_empty_iff)

lemma non_empty_hello: "non_empty ''hello'' = Inr ''hello''"
  by (simp add: non_empty_def strip_def isspace_def)

lemma LaunchConfig_new_no_args:
  assumes bm: "get_builtin_models = Inr bm"
  shows "LaunchConfig_new p no_config_args =
     Inr \<lparr>default_model = ''elia-gpt-4.1'', system_prompt = system_prompt_default p,
          message_code_theme = ''monokai'', models = [], builtin_models = bm,
          theme = ''nebula''\<rparr>"
  unfolding LaunchConfig_new_def bm by (simp add: no_config_args_def Let_def)

lemma LaunchConfig_new_system_prompt:
  assumes bm: "get_builtin_models = Inr bm"
  shows "LaunchConfig_new p (no_config_args\<lparr>system_prompt_arg := Given s\<rparr>) =
     (case non_empty s of
        Inr w \<Rightarrow> Inr \<lparr>default_model = ''elia-gpt-4.1'', system_prompt = w,
          message_code_theme = ''monokai'', models = [], builtin_models = bm,
          theme = ''nebula''\<rparr>
      | Inl e \<Rightarrow> Inl (ValidationError [(''system_prompt'', Value_error ''system prompt must not be empty'')]))"
  unfolding LaunchConfig_new_def bm by (simp add: no_config_args_def non_empty_def Let_def)

text \<open>
  Claim C2. Constructing a \<^verbatim>\<open>LaunchConfig\<close> with a \<^verbatim>\<open>system_prompt\<close> that is empty or consists
  of whitespace only fails, at construction, with a validation error on that field;
  constructing it with \<^verbatim>\<open>system_prompt="hello"\<close> succeeds and stores exactly \<^verbatim>\<open>"hello"\<close>.
\<close>

theorem system_prompt_non_empty:
  "(list_all isspace s \<longrightarrow>
      LaunchConfig_new p (no_config_args\<lparr>system_prompt_arg := Given s\<rparr>) =
        Inl (ValidationError
              [(''system_prompt'', Value_error ''system prompt must not be empty'')])) \<and>
   (\<exists>c. LaunchConfig_new p (no_config_args\<lparr>system_prompt_arg := Given ''hello''\<rparr>) = Inr c \<and>
        system_prompt c = ''hello'')"
proof -
  from get_builtin_models_ok obtain bm where bm: "get_builtin_models = Inr bm" by blast
  show ?thesis
    by (simp add: LaunchConfig_new_system_prompt[OF bm] non_empty_blank non_empty_hello)
qed

text \<open>The theorem at the empty string and at three spaces.\<close>

theorem system_prompt_non_empty_witness:
  "list_all isspace '''' \<and> list_all isspace ''   '' \<and>
   LaunchConfig_new (import_config Map.empty) (no_config_args\<lparr>system_prompt_arg := Given ''''\<rparr>) =
     Inl (ValidationError [(''system_prompt'', Value_error ''system prompt must not be empty'')]) \<and>
   LaunchConfig_new (import_config Map.empty) (no_config_args\<lparr>system_prompt_arg := Given ''   ''\<rparr>) =
     Inl (ValidationError [(''system_prompt'', Value_error ''system prompt must not be empty'')])"
  using system_prompt_non_empty[of "''''" "import_config Map.empty"]
    system_prompt_non_empty[of "''   ''" "import_config Map.empty"]
  by (simp add: isspace_def)

text \<open>
  Claim C3. Constructing a \<^verbatim>\<open>LaunchConfig\<close> without arguments succeeds, in every process, with
  \<^verbatim>\<open>default_model == "elia-gpt-4.1"\<close>, \<^verbatim>\<open>message_code_theme == "monokai"\<close>, \<^verbatim>\<open>models == []\<close>,
  \<^verbatim>\<open>builtin_models\<close> the result of \<open>get_builtin_models\<close> and \<^verbatim>\<open>theme == "nebula"\<close>; the
  \<^verbatim>\<open>system_prompt\<close> is the default stored in the class.
\<close>

theorem no_argument_defaults:
  "\<exists>bm. get_builtin_models = Inr bm \<and>
     LaunchConfig_new p no_config_args =
       Inr \<lparr>default_model = ''elia-gpt-4.1'', system_prompt = system_prompt_default p,
            message_code_theme = ''monokai'', models = [], builtin_models = bm,
            theme = ''nebula''\<rparr>"
  using get_builtin_models_ok LaunchConfig_new_no_args by blast

text \<open>
  Claim C5 as stated fails: in a process that imported \<^verbatim>\<open>config.py\<close> with the variable unset
  and then set \<^verbatim>\<open>ELIA_SYSTEM_PROMPT\<close> to \<^verbatim>\<open>foo\<close>, the variable is set before the construction,
  yet the configuration constructed without arguments has the fallback text.
\<close>

theorem system_prompt_env_counterexample:
  "environ (setenv ''ELIA_SYSTEM_PROMPT'' ''foo'' (import_config Map.empty)) ''ELIA_SYSTEM_PROMPT'' =
     Some ''foo'' \<and>
   map_sum id system_prompt
     (LaunchConfig_new (setenv ''ELIA_SYSTEM_PROMPT'' ''foo'' (import_config Map.empty))
        no_config_args) =
     Inr ''You are a helpful assistant named Elia.''"
proof -
  from get_builtin_models_ok obtain bm where bm: "get_builtin_models = Inr bm" by blast
  show ?thesis
    by (simp add: LaunchConfig_new_no_args[OF bm] setenv_def import_config_def getenv_def)
qed

text \<open>
  Claim C5, as the code has it. If \<^verbatim>\<open>ELIA_SYSTEM_PROMPT\<close> is set to \<open>v\<close> in the environment
  when \<^verbatim>\<open>config.py\<close> is imported, a \<^verbatim>\<open>LaunchConfig\<close> constructed without arguments has
  \<^verbatim>\<open>system_prompt == v\<close>, whatever the environment holds at the time of the construction.
\<close>

theorem system_prompt_env_at_import:
  assumes "env ''ELIA_SYSTEM_PROMPT'' = Some v"
  shows "\<exists>c. LaunchConfig_new ((import_config env)\<lparr>environ := env'\<rparr>) no_config_args = Inr c \<and>
           system_prompt c = v"
proof -
  from get_builtin_models_ok obtain bm where bm: "get_builtin_models = Inr bm" by blast
  show ?thesis using assms
    by (simp add: LaunchConfig_new_no_args[OF bm] import_config_def getenv_def)
qed

text \<open>The theorem at \<^verbatim>\<open>ELIA_SYSTEM_PROMPT=foo\<close>, with the environment emptied after the import.\<close>

theorem system_prompt_env_at_import_witness:
  "[''ELIA_SYSTEM_PROMPT'' \<mapsto> ''foo''] ''ELIA_SYSTEM_PROMPT'' = Some ''foo'' \<and>
   map_sum id system_prompt
     (LaunchConfig_new ((import_config [''ELIA_SYSTEM_PROMPT'' \<mapsto> ''foo''])\<lparr>environ := Map.empty\<rparr>)
        no_config_args) = Inr ''foo''"
  using system_prompt_env_at_import[of "[''ELIA_SYSTEM_PROMPT'' \<mapsto> ''foo'']" "''foo''" Map.empty]
  by auto


subsection \<open>Themes\<close>

lemma coerce_as_str_Given: "coerce as_str x = Given s \<longleftrightarrow> x = Some (YStr s)"
  by (auto simp: coerce_def as_str_def split: option.splits yaml.splits)

lemma Theme_new_name:
  assumes "Theme_new kw = Inr t"
  shows "map_of kw ''name'' = Some (YStr (Theme.name t))"
proof -
  from assms obtain n where n: "required (coerce as_str (map_of kw ''name'')) = Inr n"
    and t: "Theme.name t = n"
    by (auto simp: Theme_new_def Let_def split: sum.splits)
  from n t show ?thesis by (simp add: required_Inr coerce_as_str_Given)
qed

lemma Theme_new_error:
  assumes "Theme_new kw = Inl x"
  shows "\<exists>errs. x = ValidationError errs"
  using assms by (auto simp: Theme_new_def Let_def split: sum.splits)

lemma str_keys_map_of:
  "str_keys kvs = Some kw \<Longrightarrow> map_of kvs (YStr k) = map_of kw k"
proof (induction kvs arbitrary: kw rule: str_keys.induct)
  case 1
  then show ?case by simp
next
  case (2 k' v kvs)
  then show ?case by (auto split: option.splits)
qed simp_all

text \<open>
  Claim C9. For every theme, \<open>to_color_system\<close> hands to the \<^verbatim>\<open>ColorSystem\<close> constructor the
  fields \<^verbatim>\<open>primary\<close>, \<^verbatim>\<open>secondary\<close>, \<^verbatim>\<open>background\<close>, \<^verbatim>\<open>surface\<close>, \<^verbatim>\<open>panel\<close>, \<^verbatim>\<open>warning\<close>,
  \<^verbatim>\<open>error\<close>, \<^verbatim>\<open>success\<close>, \<^verbatim>\<open>accent\<close>, \<^verbatim>\<open>dark\<close> and \<^verbatim>\<open>variables\<close>, each with the value the
  theme holds; \<^verbatim>\<open>name\<close> is the one declared field left out; and the exclusion set
  \<^verbatim>\<open>{text_area, syntax, variable, url, method}\<close> removes nothing.
\<close>

theorem to_color_system_fields:
  "to_color_system ColorSystem t =
     ColorSystem
       [(''primary'', Str (primary t)),
        (''secondary'', Opt_str (secondary t)),
        (''background'', Opt_str (background t)),
        (''surface'', Opt_str (surface t)),
        (''panel'', Opt_str (panel t)),
        (''warning'', Opt_str (warning t)),
        (''error'', Opt_str (error t)),
        (''success'', Opt_str (success t)),
        (''accent'', Opt_str (accent t)),
        (''dark'', Bool (dark t)),
        (''variables'', Dict (variables t))] \<and>
   model_dump [''text_area'', ''syntax'', ''variable'', ''url'', ''method''] t = model_dump [] t \<and>
   map fst (Theme_fields t) = ''name'' # map fst (model_dump [] t)"
  by (simp add: to_color_system_def model_dump_def Theme_fields_def)

text \<open>\<^verbatim>\<open>Theme\<close> on four concrete documents.\<close>

lemma Theme_new_foo:
  "Theme_new [(''name'', YStr ''foo''), (''primary'', YStr ''#112233''), (''variables'', YMap [])] =
     Inr \<lparr>Theme.name = ''foo'', primary = ''#112233'', secondary = None, background = None,
          surface = None, panel = None, warning = None, error = None, success = None,
          accent = None, dark = True, variables = []\<rparr>"
  by (simp add: Theme_new_def coerce_def as_str_def as_opt_str_def as_bool_def as_dict_def)

lemma Theme_new_foo_no_variables:
  "Theme_new [(''name'', YStr ''foo''), (''primary'', YStr ''#112233'')] =
     Inl (ValidationError [(''variables'', Missing)])"
  by (simp add: Theme_new_def coerce_def as_str_def as_opt_str_def as_bool_def as_dict_def)

lemma Theme_new_empty:
  "Theme_new [] =
     Inl (ValidationError [(''name'', Missing), (''primary'', Missing), (''variables'', Missing)])"
  by (simp add: Theme_new_def coerce_def as_str_def as_opt_str_def as_bool_def as_dict_def)

lemma Theme_new_no_name:
  "Theme_new [(''primary'', YStr ''#112233''), (''variables'', YMap [])] =
     Inl (ValidationError [(''name'', Missing)])"
  by (simp add: Theme_new_def coerce_def as_str_def as_opt_str_def as_bool_def as_dict_def)

text \<open>
  Claim C4, as the code has it. For a theme directory whose only file has the suffix
  \<^verbatim>\<open>.yaml\<close> or \<^verbatim>\<open>.yml\<close> and parses to
  \<^verbatim>\<open>{name: "foo", primary: "#112233", variables: {}}\<close>, \<open>load_user_themes\<close> returns the mapping
  with the single key \<^verbatim>\<open>"foo"\<close>, whose theme has \<^verbatim>\<open>primary == "#112233"\<close>, empty \<^verbatim>\<open>variables\<close>,
  and every unset optional field at its declared default (\<^verbatim>\<open>None\<close>, and \<^verbatim>\<open>True\<close> for
  \<^verbatim>\<open>dark\<close>). \<^verbatim>\<open>variables\<close> has no default: without it the file is rejected with a validation
  error on \<^verbatim>\<open>variables\<close>.
\<close>

theorem load_user_themes_foo:
  "load_user_themes
     [\<lparr>path = p, path_suffix = ''.yaml'',
       loaded = Inr (YMap [(YStr ''name'', YStr ''foo''), (YStr ''primary'', YStr ''#112233''),
                           (YStr ''variables'', YMap [])])\<rparr>] =
     Inr [''foo'' \<mapsto>
          \<lparr>Theme.name = ''foo'', primary = ''#112233'', secondary = None, background = None,
           surface = None, panel = None, warning = None, error = None, success = None,
           accent = None, dark = True, variables = []\<rparr>] \<and>
   load_user_themes
     [\<lparr>path = p, path_suffix = ''.yml'',
       loaded = Inr (YMap [(YStr ''name'', YStr ''foo''), (YStr ''primary'', YStr ''#112233''),
                           (YStr ''variables'', YMap [])])\<rparr>] =
     Inr [''foo'' \<mapsto>
          \<lparr>Theme.name = ''foo'', primary = ''#112233'', secondary = None, background = None,
           surface = None, panel = None, warning = None, error = None, success = None,
           accent = None, dark = True, variables = []\<rparr>] \<and>
   load_user_themes
     [\<lparr>path = p, path_suffix = ''.yaml'',
       loaded = Inr (YMap [(YStr ''name'', YStr ''foo''), (YStr ''primary'', YStr ''#112233'')])\<rparr>] =
     Inl (ValidationError [(''variables'', Missing)])"
  by (simp add: load_user_themes_def load_file_def assign_theme_def or_empty_def Theme_call_def
      Theme_new_foo Theme_new_foo_no_variables getitem_def setitem_def)

text \<open>
  Claim C4 as stated fails: on the single file \<^verbatim>\<open>{name: "foo", primary: "#112233"}\<close>,
  \<open>load_user_themes\<close> returns no mapping but raises the validation error of the missing
  \<^verbatim>\<open>variables\<close>.
\<close>

theorem load_user_themes_foo_counterexample:
  "load_user_themes
     [\<lparr>path = ''themes/foo.yaml'', path_suffix = ''.yaml'',
       loaded = Inr (YMap [(YStr ''name'', YStr ''foo''), (YStr ''primary'', YStr ''#112233'')])\<rparr>] =
     Inl (ValidationError [(''variables'', Missing)])"
  by (simp add: load_user_themes_def load_file_def assign_theme_def or_empty_def Theme_call_def
      Theme_new_foo_no_variables)

text \<open>
  The \<^verbatim>\<open>try\<close> body never raises \<^verbatim>\<open>KeyError\<close>: when \<^verbatim>\<open>Theme(**theme_content)\<close> returns, the
  document has a \<^verbatim>\<open>name\<close>, and when the document has none, the constructor has raised already.
\<close>

lemma Theme_new_missing_name:
  "map_of kw ''name'' = None \<Longrightarrow>
     \<exists>rest. Theme_new kw = Inl (ValidationError ((''name'', Missing) # rest))"
  by (simp add: Theme_new_def Let_def coerce_def)

lemma assign_theme_not_KeyError: "assign_theme themes c \<noteq> Inl KeyError"
proof (cases "Theme_call c")
  case (Inl x)
  then have "x \<noteq> KeyError"
    by (auto simp: Theme_call_def split: yaml.splits option.splits dest: Theme_new_error)
  with Inl show ?thesis by (simp add: assign_theme_def)
next
  case (Inr t)
  then obtain kvs kw where c: "c = YMap kvs" and keys: "str_keys kvs = Some kw"
    and t: "Theme_new kw = Inr t"
    by (auto simp: Theme_call_def split: yaml.splits option.splits)
  from Theme_new_name[OF t] str_keys_map_of[OF keys, of "''name''"]
  have "getitem c (YStr ''name'') = Inr (YStr (Theme.name t))"
    by (simp add: getitem_def c)
  with Inr show ?thesis by (simp add: assign_theme_def setitem_def)
qed

text \<open>
  Claim C7 is not what the code does. The \<^verbatim>\<open>except KeyError\<close> clause, which builds the error
  that names the path, is never entered, for any document. At two files without a \<^verbatim>\<open>name\<close>,
  an empty document and a document that is complete but for the \<^verbatim>\<open>name\<close>, \<open>load_user_themes\<close>
  fails with the validation error of \<^verbatim>\<open>Theme(**theme_content)\<close>, which is not the error that
  names the path.
\<close>

theorem missing_name_error_has_no_path:
  "assign_theme themes c \<noteq> Inl KeyError \<and>
   load_user_themes [\<lparr>path = ''themes/a.yaml'', path_suffix = ''.yaml'', loaded = Inr YNull\<rparr>] =
     Inl (ValidationError [(''name'', Missing), (''primary'', Missing), (''variables'', Missing)]) \<and>
   load_user_themes
     [\<lparr>path = ''themes/a.yaml'', path_suffix = ''.yaml'',
       loaded = Inr (YMap [(YStr ''primary'', YStr ''#112233''), (YStr ''variables'', YMap [])])\<rparr>] =
     Inl (ValidationError [(''name'', Missing)]) \<and>
   ValidationError [(''name'', Missing)] \<noteq> invalid_theme_file ''themes/a.yaml''"
  using assign_theme_not_KeyError[of themes c]
  by (simp add: load_user_themes_def load_file_def assign_theme_def or_empty_def Theme_call_def
      Theme_new_empty Theme_new_no_name invalid_theme_file_def)

text \<open>The loop over a listing that starts with files that load.\<close>

lemma load_loop_append:
  "load_loop themes pre = Inr themes' \<Longrightarrow> load_loop themes (pre @ es) = load_loop themes' es"
  by (induction pre arbitrary: themes) (auto split: sum.splits if_splits)

lemma load_loop_append_error:
  "load_loop themes pre = Inl x \<Longrightarrow> load_loop themes (pre @ es) = Inl x"
  by (induction pre arbitrary: themes) (auto split: sum.splits if_splits)

text \<open>
  The entries of the validation error that \<^verbatim>\<open>Theme\<close> raises on keyword arguments with a
  \<^verbatim>\<open>name\<close>: there is at least one, and none reports \<^verbatim>\<open>name\<close> as missing.
\<close>

lemma errs_of_mem: "(k', e) \<in> set (errs_of k r) \<longleftrightarrow> k' = k \<and> r = Inl e"
  by (cases r) auto

lemma required_present_not_Missing: "required (coerce f (Some v)) \<noteq> Inl Missing"
  by (simp add: coerce_def split: option.splits)

lemma Theme_new_error_entries:
  assumes bad: "Theme_new kw = Inl x" and name: "map_of kw ''name'' = Some v"
  shows "\<exists>errs. x = ValidationError errs \<and> errs \<noteq> [] \<and> (''name'', Missing) \<notin> set errs"
proof -
  from bad obtain errs where x: "x = ValidationError errs"
    and nonempty: "errs \<noteq> []"
    and errs: "(''name'', Missing) \<in> set errs \<longrightarrow>
                 required (coerce as_str (map_of kw ''name'')) = Inl Missing"
    by (auto simp: Theme_new_def Let_def errs_of_mem split: sum.splits)
  from errs name have "(''name'', Missing) \<notin> set errs"
    by (auto simp: required_present_not_Missing)
  with x nonempty show ?thesis by blast
qed

text \<open>
  The loop body on a file that parses to a dict with a \<^verbatim>\<open>name\<close> key: the exception of the
  unpacking or of the constructor leaves it as it is.
\<close>

lemma load_file_named_document:
  assumes doc: "loaded e = Inr (YMap kvs)" and name: "map_of kvs (YStr ''name'') = Some v"
  shows "load_file themes e =
           (case str_keys kvs of
              None \<Rightarrow> Inl TypeError
            | Some kw \<Rightarrow>
               (case Theme_new kw of
                  Inl x \<Rightarrow> Inl x
                | Inr t \<Rightarrow> setitem themes v t))"
proof -
  from name have "kvs \<noteq> []" by auto
  then have c: "or_empty (YMap kvs) = YMap kvs" by (simp add: or_empty_def)
  show ?thesis
  proof (cases "str_keys kvs")
    case None
    then show ?thesis by (simp add: load_file_def doc c assign_theme_def Theme_call_def)
  next
    case (Some kw)
    show ?thesis
    proof (cases "Theme_new kw")
      case (Inl x)
      from Theme_new_error[OF Inl] obtain errs where "x = ValidationError errs" by blast
      with Some Inl show ?thesis
        by (simp add: load_file_def doc c assign_theme_def Theme_call_def)
    next
      case (Inr t)
      have "setitem themes v t \<noteq> Inl KeyError"
        by (simp add: setitem_def split: yaml.splits)
      then show ?thesis using Some Inr name
        by (auto simp: load_file_def doc c assign_theme_def Theme_call_def getitem_def
            split: sum.splits exc.splits)
    qed
  qed
qed

text \<open>
  Claim C10, as the code has it. Let a \<^verbatim>\<open>.yaml\<close> or \<^verbatim>\<open>.yml\<close> file parse to a dict that has a
  \<^verbatim>\<open>name\<close> key, and let the files listed before it load. If all keys of the dict are strings
  and \<^verbatim>\<open>Theme\<close> rejects it with the error \<open>x\<close>, then \<open>load_user_themes\<close> raises \<open>x\<close> itself,
  whatever the path of the file is, and \<open>x\<close> is a validation error with at least one entry,
  none of which reports \<^verbatim>\<open>name\<close> as missing. If a key of the dict is not a string,
  \<open>load_user_themes\<close> raises \<^verbatim>\<open>TypeError\<close>, whatever the path of the file is.
\<close>

theorem schema_error_unmodified:
  assumes sfx: "path_suffix e = ''.yaml'' \<or> path_suffix e = ''.yml''"
    and doc: "loaded e = Inr (YMap kvs)"
    and name: "map_of kvs (YStr ''name'') = Some v"
    and pre: "load_user_themes pre = Inr themes"
  shows "(\<forall>kw x. str_keys kvs = Some kw \<and> Theme_new kw = Inl x \<longrightarrow>
            (\<forall>q. load_user_themes (pre @ e\<lparr>path := q\<rparr> # post) = Inl x) \<and>
            (\<exists>errs. x = ValidationError errs \<and> errs \<noteq> [] \<and> (''name'', Missing) \<notin> set errs)) \<and>
         (str_keys kvs = None \<longrightarrow>
            (\<forall>q. load_user_themes (pre @ e\<lparr>path := q\<rparr> # post) = Inl TypeError))"
proof -
  have loop: "load_user_themes (pre @ e\<lparr>path := q\<rparr> # post) =
      (case load_file themes (e\<lparr>path := q\<rparr>) of
         Inl x \<Rightarrow> Inl x
       | Inr themes' \<Rightarrow> load_loop themes' post)" for q
    using pre sfx by (auto simp: load_user_themes_def load_loop_append)
  have one: "load_file themes (e\<lparr>path := q\<rparr>) =
      (case str_keys kvs of
         None \<Rightarrow> Inl TypeError
       | Some kw \<Rightarrow> (case Theme_new kw of Inl x \<Rightarrow> Inl x | Inr t \<Rightarrow> setitem themes v t))" for q
    by (rule load_file_named_document) (simp_all add: doc name)
  show ?thesis
  proof (intro conjI allI impI)
    fix kw x q
    assume h: "str_keys kvs = Some kw \<and> Theme_new kw = Inl x"
    then show "load_user_themes (pre @ e\<lparr>path := q\<rparr> # post) = Inl x"
      by (simp add: loop one)
  next
    fix kw x
    assume h: "str_keys kvs = Some kw \<and> Theme_new kw = Inl x"
    with name str_keys_map_of[of kvs kw "''name''"] have "map_of kw ''name'' = Some v" by simp
    with h show "\<exists>errs. x = ValidationError errs \<and> errs \<noteq> [] \<and> (''name'', Missing) \<notin> set errs"
      by (blast intro: Theme_new_error_entries)
  next
    fix q
    assume "str_keys kvs = None"
    then show "load_user_themes (pre @ e\<lparr>path := q\<rparr> # post) = Inl TypeError"
      by (simp add: loop one)
  qed
qed

text \<open>
  The theorem at the file \<^verbatim>\<open>{name: "foo", primary: "#112233"}\<close> under two paths, and at the
  file \<^verbatim>\<open>{name: "foo", 1: 2}\<close>.
\<close>

theorem schema_error_unmodified_witness:
  "load_user_themes
     [\<lparr>path = ''themes/bad.yaml'', path_suffix = ''.yaml'',
       loaded = Inr (YMap [(YStr ''name'', YStr ''foo''), (YStr ''primary'', YStr ''#112233'')])\<rparr>] =
     Inl (ValidationError [(''variables'', Missing)]) \<and>
   load_user_themes
     [\<lparr>path = ''elsewhere/other.yaml'', path_suffix = ''.yaml'',
       loaded = Inr (YMap [(YStr ''name'', YStr ''foo''), (YStr ''primary'', YStr ''#112233'')])\<rparr>] =
     Inl (ValidationError [(''variables'', Missing)]) \<and>
   load_user_themes
     [\<lparr>path = ''themes/keys.yml'', path_suffix = ''.yml'',
       loaded = Inr (YMap [(YStr ''name'', YStr ''foo''), (YInt 1, YInt 2)])\<rparr>] =
     Inl TypeError"
proof -
  let ?d = "[(YStr ''name'', YStr ''foo''), (YStr ''primary'', YStr ''#112233'')]"
  let ?e = "\<lparr>path = ''themes/bad.yaml'', path_suffix = ''.yaml'', loaded = Inr (YMap ?d)\<rparr>"
  let ?d' = "[(YStr ''name'', YStr ''foo''), (YInt 1, YInt 2)]"
  let ?e' = "\<lparr>path = ''themes/keys.yml'', path_suffix = ''.yml'', loaded = Inr (YMap ?d')\<rparr>"
  have pre: "load_user_themes [] = Inr Map.empty" by (simp add: load_user_themes_def)
  have sfx: "path_suffix ?e = ''.yaml'' \<or> path_suffix ?e = ''.yml''" by simp
  have doc: "loaded ?e = Inr (YMap ?d)" by simp
  have name: "map_of ?d (YStr ''name'') = Some (YStr ''foo'')" by simp
  have keys: "str_keys ?d = Some [(''name'', YStr ''foo''), (''primary'', YStr ''#112233'')]" by simp
  have sfx': "path_suffix ?e' = ''.yaml'' \<or> path_suffix ?e' = ''.yml''" by simp
  have doc': "loaded ?e' = Inr (YMap ?d')" by simp
  have name': "map_of ?d' (YStr ''name'') = Some (YStr ''foo'')" by simp
  have keys': "str_keys ?d' = None" by simp
  from schema_error_unmodified[OF sfx doc name pre, of "[]"] keys Theme_new_foo_no_variables
  have a: "\<forall>q. load_user_themes ([] @ ?e\<lparr>path := q\<rparr> # []) = Inl (ValidationError [(''variables'', Missing)])"
    by blast
  from schema_error_unmodified[OF sfx' doc' name' pre, of "[]"] keys'
  have b: "\<forall>q. load_user_themes ([] @ ?e'\<lparr>path := q\<rparr> # []) = Inl TypeError"
    by blast
  from a[rule_format, of "''themes/bad.yaml''"] a[rule_format, of "''elsewhere/other.yaml''"]
    b[rule_format, of "''themes/keys.yml''"]
  show ?thesis by simp
qed

text \<open>
  Claim C10 as stated fails: the document \<^verbatim>\<open>{name: "foo", 1: 2}\<close> has a \<^verbatim>\<open>name\<close> and violates
  the schema, since \<^verbatim>\<open>primary\<close> and \<^verbatim>\<open>variables\<close> are missing, as the constructor reports on
  its string-keyed part; yet \<open>load_user_themes\<close> raises \<^verbatim>\<open>TypeError\<close>, not the validation error.
\<close>

theorem schema_error_counterexample:
  "Theme_new [(''name'', YStr ''foo'')] =
     Inl (ValidationError [(''primary'', Missing), (''variables'', Missing)]) \<and>
   load_user_themes
     [\<lparr>path = ''themes/keys.yaml'', path_suffix = ''.yaml'',
       loaded = Inr (YMap [(YStr ''name'', YStr ''foo''), (YInt 1, YInt 2)])\<rparr>] =
     Inl TypeError"
  by (simp add: load_user_themes_def load_file_def assign_theme_def or_empty_def Theme_call_def
      Theme_new_def coerce_def as_str_def as_opt_str_def as_bool_def as_dict_def)

end
